theory Spec2Isabelle
  imports Main "HOL-Library.Word"
begin

section \<open>Exceptions, metrics and the log\<close>

text \<open>
  A raised Python exception is a value: its class name, its message, and whether the class
  derives from \<open>Exception\<close>. The last matters because every handler of
  \<open>ext_storage.py\<close> is written \<open>except Exception\<close>: a \<open>KeyboardInterrupt\<close>,
  \<open>SystemExit\<close> or \<open>GeneratorExit\<close> (classes below \<open>BaseException\<close> only) passes
  such a handler without entering it.
\<close>

datatype exn = Raised (derives_Exception: bool) (exn_type: string) (exn_message: string)

type_synonym bytes = "8 word list"

text \<open>A metric label is the pair \<open>(method, provider)\<close> of \<open>labelnames\<close>.\<close>

type_synonym label = "string \<times> string"

text \<open>
  The process state the facade touches: the three Prometheus metrics of the module (a
  counter holds a value per label, the histogram the observed values per label, in order),
  the records written through \<open>logger\<close>, and the outside world \<open>'b\<close> the backend
  adapter works on (stored objects, files, the clock).
\<close>

record 'b world =
  storage_request_total_counter :: "label \<Rightarrow> nat"
  storage_request_failed_counter :: "label \<Rightarrow> nat"
  storage_request_latency :: "label \<Rightarrow> int list"
  logger :: "string list"
  backend :: 'b

definition inc_total :: "label \<Rightarrow> 'b world \<Rightarrow> 'b world" where
  "inc_total l w =
     w\<lparr>storage_request_total_counter :=
         (storage_request_total_counter w)(l := storage_request_total_counter w l + 1)\<rparr>"

definition inc_failed :: "label \<Rightarrow> 'b world \<Rightarrow> 'b world" where
  "inc_failed l w =
     w\<lparr>storage_request_failed_counter :=
         (storage_request_failed_counter w)(l := storage_request_failed_counter w l + 1)\<rparr>"

definition observe :: "label \<Rightarrow> int \<Rightarrow> 'b world \<Rightarrow> 'b world" where
  "observe l d w =
     w\<lparr>storage_request_latency :=
         (storage_request_latency w)(l := storage_request_latency w l @ [d])\<rparr>"

definition logger_exception :: "string \<Rightarrow> 'b world \<Rightarrow> 'b world" where
  "logger_exception msg w = w\<lparr>logger := logger w @ [msg]\<rparr>"

section \<open>The backend adapter and the facade object\<close>

text \<open>
  \<open>BaseStorage\<close> (\<open>extensions/storage/base_storage.py\<close>) and its adapters are
  imported, not defined, by \<open>ext_storage.py\<close>, so the adapter held in
  \<open>self.storage_runner\<close> is a parameter: six methods that act on the outside world and either return or raise. A generator
  \<open>'g\<close> returned by \<open>load_stream\<close> is advanced by \<open>runner_next\<close>, which raises,
  ends (\<open>None\<close>) or yields a chunk and the generator's next state.
\<close>

record ('b, 'g) BaseStorage =
  runner_save :: "string \<Rightarrow> bytes \<Rightarrow> 'b \<Rightarrow> (exn + unit) \<times> 'b"
  runner_load_once :: "string \<Rightarrow> 'b \<Rightarrow> (exn + bytes) \<times> 'b"
  runner_load_stream :: "string \<Rightarrow> 'b \<Rightarrow> (exn + 'g) \<times> 'b"
  runner_download :: "string \<Rightarrow> string \<Rightarrow> 'b \<Rightarrow> (exn + unit) \<times> 'b"
  runner_exists :: "string \<Rightarrow> 'b \<Rightarrow> (exn + bool) \<times> 'b"
  runner_delete :: "string \<Rightarrow> 'b \<Rightarrow> (exn + unit) \<times> 'b"
  runner_next :: "'g \<Rightarrow> 'b \<Rightarrow> (exn + (bytes \<times> 'g) option) \<times> 'b"

text \<open>
  What a method of \<open>Storage\<close> reads besides its arguments: the adapter, the configured
  \<open>dify_config.STORAGE_TYPE\<close>, and the clock of the histogram's timer
  (\<open>time.perf_counter\<close>, read off the outside world in integral ticks).
\<close>

record ('b, 'g) Storage =
  storage_runner :: "('b, 'g) BaseStorage"
  STORAGE_TYPE :: string
  perf_counter :: "'b \<Rightarrow> int"

section \<open>The factory\<close>

text \<open>
  The members of \<open>StorageType\<close> in the order of the \<open>match\<close> statement. The enumeration
  itself (\<open>extensions/storage/storage_type.py\<close>) is imported only, so the string
  each member stands for is a parameter \<open>sv\<close> of the factory; a \<open>case StorageType.X\<close>
  pattern compares the subject with that string.
\<close>

datatype StorageType =
    S3 | OPENDAL | LOCAL | AZURE_BLOB | ALIYUN_OSS | GOOGLE_STORAGE | TENCENT_COS
  | OCI_STORAGE | HUAWEI_OBS | BAIDU_OBS | VOLCENGINE_TOS | SUPBASE

text \<open>
  What a branch returns: an adapter class, or one of the two closures over
  \<open>OpenDALStorage\<close>. Each is callable without arguments.
\<close>

datatype factory =
    AwsS3Storage
  | OpenDALStorage_of_scheme
  | OpenDALStorage_fs_at_local_path
  | AzureBlobStorage
  | AliyunOssStorage
  | GoogleCloudStorage
  | TencentCosStorage
  | OracleOCIStorage
  | HuaweiObsStorage
  | BaiduObsStorage
  | VolcengineTosStorage
  | SupabaseStorage

definition unsupported :: "string \<Rightarrow> exn" where
  "unsupported storage_type =
     Raised True ''ValueError'' (''unsupported storage type '' @ storage_type)"

definition get_storage_factory :: "(StorageType \<Rightarrow> string) \<Rightarrow> string \<Rightarrow> exn + factory" where
  "get_storage_factory sv storage_type =
     (if storage_type = sv S3 then Inr AwsS3Storage
      else if storage_type = sv OPENDAL then Inr OpenDALStorage_of_scheme
      else if storage_type = sv LOCAL then Inr OpenDALStorage_fs_at_local_path
      else if storage_type = sv AZURE_BLOB then Inr AzureBlobStorage
      else if storage_type = sv ALIYUN_OSS then Inr AliyunOssStorage
      else if storage_type = sv GOOGLE_STORAGE then Inr GoogleCloudStorage
      else if storage_type = sv TENCENT_COS then Inr TencentCosStorage
      else if storage_type = sv OCI_STORAGE then Inr OracleOCIStorage
      else if storage_type = sv HUAWEI_OBS then Inr HuaweiObsStorage
      else if storage_type = sv BAIDU_OBS then Inr BaiduObsStorage
      else if storage_type = sv VOLCENGINE_TOS then Inr VolcengineTosStorage
      else if storage_type = sv SUPBASE then Inr SupabaseStorage
      else Inl (unsupported storage_type))"

text \<open>
  \<open>Storage.init_app\<close>: the factory is looked up first, and only a factory that was found
  is called (\<open>build\<close> stands for the call, which may raise on its own).
\<close>

definition init_app ::
  "(StorageType \<Rightarrow> string) \<Rightarrow> (factory \<Rightarrow> exn + 'r) \<Rightarrow> string \<Rightarrow> exn + 'r" where
  "init_app sv build storage_type =
     (case get_storage_factory sv storage_type of
        Inl e \<Rightarrow> Inl e
      | Inr storage_factory \<Rightarrow> build storage_factory)"

text \<open>
  A table of member values to run the factory on: the strings the members carry in the
  upstream project.
\<close>

fun storage_type_value :: "StorageType \<Rightarrow> string" where
  "storage_type_value S3 = ''s3''"
| "storage_type_value OPENDAL = ''opendal''"
| "storage_type_value LOCAL = ''local''"
| "storage_type_value AZURE_BLOB = ''azure-blob''"
| "storage_type_value ALIYUN_OSS = ''aliyun-oss''"
| "storage_type_value GOOGLE_STORAGE = ''google-storage''"
| "storage_type_value TENCENT_COS = ''tencent-cos''"
| "storage_type_value OCI_STORAGE = ''oci-storage''"
| "storage_type_value HUAWEI_OBS = ''huawei-obs''"
| "storage_type_value BAIDU_OBS = ''baidu-obs''"
| "storage_type_value VOLCENGINE_TOS = ''volcengine-tos''"
| "storage_type_value SUPBASE = ''supabase''"

section \<open>Instrumentation\<close>

text \<open>
  The body of the \<open>with\<close> block of \<open>timeit\<close>: the total counter is incremented, the
  wrapped function runs, and \<open>except Exception\<close> increments the failure counter and
  raises the exception again. An exception outside \<open>Exception\<close> is not caught and leaves
  the block as it came.
\<close>

definition timeit_body ::
  "label \<Rightarrow> ('b world \<Rightarrow> (exn + 'a) \<times> 'b world) \<Rightarrow> 'b world \<Rightarrow> (exn + 'a) \<times> 'b world" where
  "timeit_body l func w =
     (case func (inc_total l w) of
        (Inr v, w') \<Rightarrow> (Inr v, w')
      | (Inl e, w') \<Rightarrow>
          if derives_Exception e then (Inl e, inc_failed l w') else (Inl e, w'))"

text \<open>
  The decorator: \<open>Histogram.time()\<close> reads the clock on entry and, when the block is left
  by return or by exception, observes \<open>max(now - start, 0)\<close> (the library's timer clamps
  a clock that went backwards) and lets the result or the exception through.
\<close>

definition timeit ::
  "('b, 'g) Storage \<Rightarrow> string \<Rightarrow> ('b world \<Rightarrow> (exn + 'a) \<times> 'b world) \<Rightarrow>
     'b world \<Rightarrow> (exn + 'a) \<times> 'b world" where
  "timeit self name func w =
     (let l = (name, STORAGE_TYPE self);
          start = perf_counter self (backend w)
      in case timeit_body l func w of
           (r, w') \<Rightarrow> (r, observe l (max (perf_counter self (backend w') - start) 0) w'))"

section \<open>The facade methods\<close>

text \<open>
  Every method has the shape \<open>try: ... except Exception as e: logger.exception(msg); raise e\<close>.
\<close>

definition logged ::
  "string \<Rightarrow> ('b world \<Rightarrow> (exn + 'a) \<times> 'b world) \<Rightarrow> 'b world \<Rightarrow> (exn + 'a) \<times> 'b world" where
  "logged msg body w =
     (case body w of
        (Inr v, w') \<Rightarrow> (Inr v, w')
      | (Inl e, w') \<Rightarrow>
          if derives_Exception e then (Inl e, logger_exception msg w') else (Inl e, w'))"

text \<open>A call of a method of \<open>self.storage_runner\<close>: it sees and changes the outside world only.\<close>

definition on_backend :: "('b \<Rightarrow> 'r \<times> 'b) \<Rightarrow> 'b world \<Rightarrow> 'r \<times> 'b world" where
  "on_backend f w = (case f (backend w) of (r, b') \<Rightarrow> (r, w\<lparr>backend := b'\<rparr>))"

text \<open>\<open>Storage.save\<close> carries no decorator.\<close>

definition save ::
  "('b, 'g) Storage \<Rightarrow> string \<Rightarrow> bytes \<Rightarrow> 'b world \<Rightarrow> (exn + unit) \<times> 'b world" where
  "save self filename data =
     logged (''Failed to save file '' @ filename)
       (on_backend (runner_save (storage_runner self) filename data))"

definition load_once ::
  "('b, 'g) Storage \<Rightarrow> string \<Rightarrow> 'b world \<Rightarrow> (exn + bytes) \<times> 'b world" where
  "load_once self filename =
     timeit self ''load_once''
       (logged (''Failed to load_once file '' @ filename)
          (on_backend (runner_load_once (storage_runner self) filename)))"

definition load_stream ::
  "('b, 'g) Storage \<Rightarrow> string \<Rightarrow> 'b world \<Rightarrow> (exn + 'g) \<times> 'b world" where
  "load_stream self filename =
     timeit self ''load_stream''
       (logged (''Failed to load_stream file '' @ filename)
          (on_backend (runner_load_stream (storage_runner self) filename)))"

text \<open>
  What a facade method returns: \<open>None\<close>, \<open>bytes\<close>, a generator or a \<open>bool\<close>. The
  value of \<open>load\<close> is \<open>Union[bytes, Generator]\<close>.
\<close>

datatype 'g pyvalue = PyNone | PyBytes bytes | PyGenerator 'g | PyBool bool

definition returning ::
  "('a \<Rightarrow> 'c) \<Rightarrow> (exn + 'a) \<times> 'b world \<Rightarrow> (exn + 'c) \<times> 'b world" where
  "returning c rw = (case rw of (r, w') \<Rightarrow> (map_sum id c r, w'))"

definition load ::
  "('b, 'g) Storage \<Rightarrow> string \<Rightarrow> bool \<Rightarrow> 'b world \<Rightarrow> (exn + 'g pyvalue) \<times> 'b world" where
  "load self filename stream =
     timeit self ''load''
       (logged (''Failed to load file '' @ filename)
          (\<lambda>w. if stream then returning PyGenerator (load_stream self filename w)
               else returning PyBytes (load_once self filename w)))"

definition download ::
  "('b, 'g) Storage \<Rightarrow> string \<Rightarrow> string \<Rightarrow> 'b world \<Rightarrow> (exn + unit) \<times> 'b world" where
  "download self filename target_filepath =
     timeit self ''download''
       (logged (''Failed to download file '' @ filename)
          (on_backend (runner_download (storage_runner self) filename target_filepath)))"

definition exists ::
  "('b, 'g) Storage \<Rightarrow> string \<Rightarrow> 'b world \<Rightarrow> (exn + bool) \<times> 'b world" where
  "exists self filename =
     timeit self ''exists''
       (logged (''Failed to check file exists '' @ filename)
          (on_backend (runner_exists (storage_runner self) filename)))"

definition delete ::
  "('b, 'g) Storage \<Rightarrow> string \<Rightarrow> 'b world \<Rightarrow> (exn + unit) \<times> 'b world" where
  "delete self filename =
     timeit self ''delete''
       (logged (''Failed to delete file '' @ filename)
          (on_backend (runner_delete (storage_runner self) filename)))"

section \<open>Calls of the facade\<close>

text \<open>
  A call of a facade method with its arguments, the \<open>__name__\<close> of the method (kept by
  \<open>functools.wraps\<close>, and the \<open>method\<close> label of its metrics), and the call run on a
  facade.
\<close>

datatype call =
    Save string bytes
  | Load string bool
  | Load_once string
  | Load_stream string
  | Download string string
  | Exists string
  | Delete string

fun method_name :: "call \<Rightarrow> string" where
  "method_name (Save filename data) = ''save''"
| "method_name (Load filename stream) = ''load''"
| "method_name (Load_once filename) = ''load_once''"
| "method_name (Load_stream filename) = ''load_stream''"
| "method_name (Download filename target_filepath) = ''download''"
| "method_name (Exists filename) = ''exists''"
| "method_name (Delete filename) = ''delete''"

fun key :: "call \<Rightarrow> string" where
  "key (Save filename data) = filename"
| "key (Load filename stream) = filename"
| "key (Load_once filename) = filename"
| "key (Load_stream filename) = filename"
| "key (Download filename target_filepath) = filename"
| "key (Exists filename) = filename"
| "key (Delete filename) = filename"

fun invoke ::
  "('b, 'g) Storage \<Rightarrow> call \<Rightarrow> 'b world \<Rightarrow> (exn + 'g pyvalue) \<times> 'b world" where
  "invoke self (Save filename data) w = returning (\<lambda>u. PyNone) (save self filename data w)"
| "invoke self (Load filename stream) w = load self filename stream w"
| "invoke self (Load_once filename) w = returning PyBytes (load_once self filename w)"
| "invoke self (Load_stream filename) w = returning PyGenerator (load_stream self filename w)"
| "invoke self (Download filename target_filepath) w =
     returning (\<lambda>u. PyNone) (download self filename target_filepath w)"
| "invoke self (Exists filename) w = returning PyBool (exists self filename w)"
| "invoke self (Delete filename) w = returning (\<lambda>u. PyNone) (delete self filename w)"

text \<open>The method of the adapter that the body of the facade method reaches.\<close>

definition answering :: "('a \<Rightarrow> 'c) \<Rightarrow> (exn + 'a) \<times> 'b \<Rightarrow> (exn + 'c) \<times> 'b" where
  "answering c rb = (case rb of (r, b') \<Rightarrow> (map_sum id c r, b'))"

fun backend_call ::
  "('b, 'g) BaseStorage \<Rightarrow> call \<Rightarrow> 'b \<Rightarrow> (exn + 'g pyvalue) \<times> 'b" where
  "backend_call runner (Save filename data) b =
     answering (\<lambda>u. PyNone) (runner_save runner filename data b)"
| "backend_call runner (Load filename stream) b =
     (if stream then answering PyGenerator (runner_load_stream runner filename b)
      else answering PyBytes (runner_load_once runner filename b))"
| "backend_call runner (Load_once filename) b =
     answering PyBytes (runner_load_once runner filename b)"
| "backend_call runner (Load_stream filename) b =
     answering PyGenerator (runner_load_stream runner filename b)"
| "backend_call runner (Download filename target_filepath) b =
     answering (\<lambda>u. PyNone) (runner_download runner filename target_filepath b)"
| "backend_call runner (Exists filename) b = answering PyBool (runner_exists runner filename b)"
| "backend_call runner (Delete filename) b =
     answering (\<lambda>u. PyNone) (runner_delete runner filename b)"

text \<open>
  The messages the handlers on the way of a call pass to \<open>logger.exception\<close>, innermost
  first: \<open>load\<close> goes through the handler of the method it delegates to and then its own.
\<close>

fun messages :: "call \<Rightarrow> string list" where
  "messages (Save filename data) = [''Failed to save file '' @ filename]"
| "messages (Load filename stream) =
     [(if stream then ''Failed to load_stream file '' else ''Failed to load_once file '') @ filename,
      ''Failed to load file '' @ filename]"
| "messages (Load_once filename) = [''Failed to load_once file '' @ filename]"
| "messages (Load_stream filename) = [''Failed to load_stream file '' @ filename]"
| "messages (Download filename target_filepath) = [''Failed to download file '' @ filename]"
| "messages (Exists filename) = [''Failed to check file exists '' @ filename]"
| "messages (Delete filename) = [''Failed to delete file '' @ filename]"

text \<open>Whether a result is an exception that a handler \<open>except Exception\<close> catches.\<close>

definition caught :: "exn + 'a \<Rightarrow> bool" where
  "caught r = (case r of Inl e \<Rightarrow> derives_Exception e | Inr v \<Rightarrow> False)"

section \<open>A caller iterating a returned generator\<close>

text \<open>
  The caller of \<open>load_stream\<close> runs \<open>for chunk in generator\<close>: each step advances the
  generator in the outside world. The loop may be endless, so it carries fuel; \<open>None\<close>
  says the fuel ran out, \<open>Some (Inl e)\<close> that a step raised, \<open>Some (Inr cs)\<close> that
  the generator ended after the chunks \<open>cs\<close>.
\<close>

fun iterate ::
  "('b, 'g) Storage \<Rightarrow> nat \<Rightarrow> 'g \<Rightarrow> 'b world \<Rightarrow> (exn + bytes list) option \<times> 'b world" where
  "iterate self 0 g w = (None, w)"
| "iterate self (Suc n) g w =
     (case on_backend (runner_next (storage_runner self) g) w of
        (Inl e, w') \<Rightarrow> (Some (Inl e), w')
      | (Inr None, w') \<Rightarrow> (Some (Inr []), w')
      | (Inr (Some (chunk, g')), w') \<Rightarrow>
          (case iterate self n g' w' of
             (Some (Inr chunks), w'') \<Rightarrow> (Some (Inr (chunk # chunks)), w'')
           | (other, w'') \<Rightarrow> (other, w'')))"

section \<open>Adapters to run the facade on\<close>

text \<open>
  Modelled from the spec: the backend adapters (\<open>extensions/storage/*_storage.py\<close>) are
  missing from the sources. This one follows the Backend Capability Contract on a store
  held in memory: \<open>save\<close> binds the key to the bytes, \<open>load_once\<close> returns the bytes
  bound to the key, \<open>exists\<close> tells whether the key is bound, \<open>delete\<close> unbinds it,
  \<open>download\<close> copies the bytes to a local path, and a missing key is a
  backend-specific error. \<open>load_stream\<close> is a Python generator function: calling it
  runs nothing, and the object is looked up at the first \<open>next\<close>. Every backend operation takes one tick of the clock.
\<close>

record memory =
  objects :: "string \<rightharpoonup> bytes"
  files :: "string \<rightharpoonup> bytes"
  now :: int

datatype memory_generator = Unstarted string | Exhausted

definition tick :: "memory \<Rightarrow> memory" where
  "tick m = m\<lparr>now := now m + 1\<rparr>"

definition file_not_found :: "string \<Rightarrow> exn" where
  "file_not_found filename = Raised True ''FileNotFoundError'' filename"

definition memory_save :: "string \<Rightarrow> bytes \<Rightarrow> memory \<Rightarrow> (exn + unit) \<times> memory" where
  "memory_save filename data m = (Inr (), tick (m\<lparr>objects := (objects m)(filename \<mapsto> data)\<rparr>))"

definition memory_load_once :: "string \<Rightarrow> memory \<Rightarrow> (exn + bytes) \<times> memory" where
  "memory_load_once filename m =
     (case objects m filename of
        None \<Rightarrow> (Inl (file_not_found filename), tick m)
      | Some data \<Rightarrow> (Inr data, tick m))"

definition memory_load_stream :: "string \<Rightarrow> memory \<Rightarrow> (exn + memory_generator) \<times> memory" where
  "memory_load_stream filename m = (Inr (Unstarted filename), m)"

fun memory_next ::
  "memory_generator \<Rightarrow> memory \<Rightarrow> (exn + (bytes \<times> memory_generator) option) \<times> memory" where
  "memory_next (Unstarted filename) m =
     (case objects m filename of
        None \<Rightarrow> (Inl (file_not_found filename), tick m)
      | Some data \<Rightarrow> (Inr (Some (data, Exhausted)), tick m))"
| "memory_next Exhausted m = (Inr None, m)"

definition memory_download :: "string \<Rightarrow> string \<Rightarrow> memory \<Rightarrow> (exn + unit) \<times> memory" where
  "memory_download filename target_filepath m =
     (case objects m filename of
        None \<Rightarrow> (Inl (file_not_found filename), tick m)
      | Some data \<Rightarrow> (Inr (), tick (m\<lparr>files := (files m)(target_filepath \<mapsto> data)\<rparr>)))"

definition memory_exists :: "string \<Rightarrow> memory \<Rightarrow> (exn + bool) \<times> memory" where
  "memory_exists filename m = (Inr (objects m filename \<noteq> None), tick m)"

definition memory_delete :: "string \<Rightarrow> memory \<Rightarrow> (exn + unit) \<times> memory" where
  "memory_delete filename m = (Inr (), tick (m\<lparr>objects := (objects m)(filename := None)\<rparr>))"

definition memory_runner :: "(memory, memory_generator) BaseStorage" where
  "memory_runner =
     \<lparr>runner_save = memory_save, runner_load_once = memory_load_once,
      runner_load_stream = memory_load_stream, runner_download = memory_download,
      runner_exists = memory_exists, runner_delete = memory_delete,
      runner_next = memory_next\<rparr>"

text \<open>
  An adapter whose every call raises the given exception: a backend-specific error, or a
  \<open>KeyboardInterrupt\<close>, which derives from \<open>BaseException\<close> and not from
  \<open>Exception\<close>.
\<close>

definition raising_runner :: "exn \<Rightarrow> (memory, memory_generator) BaseStorage" where
  "raising_runner e =
     \<lparr>runner_save = (\<lambda>filename data m. (Inl e, tick m)),
      runner_load_once = (\<lambda>filename m. (Inl e, tick m)),
      runner_load_stream = (\<lambda>filename m. (Inl e, tick m)),
      runner_download = (\<lambda>filename target_filepath m. (Inl e, tick m)),
      runner_exists = (\<lambda>filename m. (Inl e, tick m)),
      runner_delete = (\<lambda>filename m. (Inl e, tick m)),
      runner_next = (\<lambda>g m. (Inl e, tick m))\<rparr>"

definition connection_error :: exn where
  "connection_error = Raised True ''ConnectionError'' ''connection reset''"

definition keyboard_interrupt :: exn where
  "keyboard_interrupt = Raised False ''KeyboardInterrupt'' []"

text \<open>The facade over an adapter, configured as provider \<open>local\<close>, and a fresh process.\<close>

definition facade_of ::
  "(memory, memory_generator) BaseStorage \<Rightarrow> (memory, memory_generator) Storage" where
  "facade_of runner = \<lparr>storage_runner = runner, STORAGE_TYPE = ''local'', perf_counter = now\<rparr>"

definition fresh :: "memory world" where
  "fresh =
     \<lparr>storage_request_total_counter = (\<lambda>l. 0), storage_request_failed_counter = (\<lambda>l. 0),
      storage_request_latency = (\<lambda>l. []), logger = [],
      backend = \<lparr>objects = Map.empty, files = Map.empty, now = 0\<rparr>\<rparr>"

section \<open>The factory is total on the enumeration and fails at once outside it\<close>

lemma get_storage_factory_member: "\<exists>f. get_storage_factory sv (sv m) = Inr f"
  by (cases m) (simp_all add: get_storage_factory_def)

lemma get_storage_factory_other:
  assumes "storage_type \<notin> range sv"
  shows "get_storage_factory sv storage_type = Inl (unsupported storage_type)"
proof -
  have "storage_type \<noteq> sv m" for m
    using assms by blast
  then show ?thesis
    by (simp add: get_storage_factory_def)
qed

text \<open>
  Claim C3. For each of the twelve members of the enumeration \<open>get_storage_factory\<close>
  returns a factory and does not raise. For every string that is the value of no member it
  raises at once the \<open>ValueError\<close> "unsupported storage type ..." (the spec's
  UnsupportedBackendType): the error is the result of the lookup itself, so
  \<open>init_app\<close> fails with it before any backend is built or used.
\<close>

theorem get_storage_factory_total_or_unsupported:
  "(\<exists>f. get_storage_factory sv (sv m) = Inr f) \<and>
   (storage_type \<notin> range sv \<longrightarrow>
      get_storage_factory sv storage_type = Inl (unsupported storage_type) \<and>
      init_app sv build storage_type = Inl (unsupported storage_type))"
  using get_storage_factory_member [of sv m] get_storage_factory_other [of storage_type sv]
  by (simp add: init_app_def)

lemma ftp_is_no_member: "''ftp'' \<notin> range storage_type_value"
proof -
  have "storage_type_value m \<noteq> ''ftp''" for m
    by (cases m) simp_all
  then show ?thesis
    by (metis rangeE)
qed

theorem get_storage_factory_total_or_unsupported_witness:
  "(\<exists>f. get_storage_factory storage_type_value ''s3'' = Inr f) \<and>
   ''ftp'' \<notin> range storage_type_value \<and>
   get_storage_factory storage_type_value ''ftp'' = Inl (unsupported ''ftp'') \<and>
   init_app storage_type_value Inr ''ftp'' = (Inl (unsupported ''ftp'') :: exn + factory)"
  using get_storage_factory_total_or_unsupported [of storage_type_value S3 "''ftp''" Inr]
    ftp_is_no_member
  by simp

section \<open>What a decorated, logging method does to the process state\<close>

lemmas metric_defs = inc_total_def inc_failed_def observe_def logger_exception_def

lemma caught_simps [simp]:
  "caught (Inl e) = derives_Exception e" "caught (Inr v) = False"
  by (simp_all add: caught_def)

lemma caught_map_sum [simp]: "caught (map_sum id c r) = caught r"
  by (cases r) simp_all

lemma logged_eq:
  "logged msg body w =
     (case body w of (r, w') \<Rightarrow> (r, if caught r then logger_exception msg w' else w'))"
  by (simp add: logged_def split: prod.splits sum.splits)

lemma timeit_body_eq:
  "timeit_body l func w =
     (case func (inc_total l w) of (r, w') \<Rightarrow> (r, if caught r then inc_failed l w' else w'))"
  by (simp add: timeit_body_def split: prod.splits sum.splits)

lemma timeit_eq:
  "timeit self name func w =
     (case func (inc_total (name, STORAGE_TYPE self) w) of
        (r, w') \<Rightarrow>
          (r, observe (name, STORAGE_TYPE self)
                (max (perf_counter self (backend w') - perf_counter self (backend w)) 0)
                (if caught r then inc_failed (name, STORAGE_TYPE self) w' else w')))"
  by (simp add: timeit_def timeit_body_eq Let_def metric_defs split: prod.splits)

lemma on_backend_eq:
  "on_backend f w = (fst (f (backend w)), w\<lparr>backend := snd (f (backend w))\<rparr>)"
  by (simp add: on_backend_def split: prod.splits)

text \<open>
  The state after a decorated method whose body is one logged call of the adapter, field by
  field.
\<close>

lemma instrumented_call:
  "timeit self name (logged msg (on_backend f)) w =
     (let r = fst (f (backend w)); b' = snd (f (backend w)); l = (name, STORAGE_TYPE self) in
      (r, w\<lparr>storage_request_total_counter :=
               (storage_request_total_counter w)(l := storage_request_total_counter w l + 1),
             storage_request_failed_counter :=
               (if caught r
                then (storage_request_failed_counter w)(l := storage_request_failed_counter w l + 1)
                else storage_request_failed_counter w),
             storage_request_latency :=
               (storage_request_latency w)
                 (l := storage_request_latency w l @
                       [max (perf_counter self b' - perf_counter self (backend w)) 0]),
             logger := (if caught r then logger w @ [msg] else logger w),
             backend := b'\<rparr>))"
  by (simp add: timeit_eq logged_eq on_backend_eq metric_defs Let_def)

lemma returning_eq: "returning c rw = (map_sum id c (fst rw), snd rw)"
  by (simp add: returning_def split: prod.splits)

lemma answering_eq: "answering c rb = (map_sum id c (fst rb), snd rb)"
  by (simp add: answering_def split: prod.splits)

text \<open>
  The same for a decorated method that delegates to another decorated method, as
  \<open>load\<close> does: both are counted and timed, and on a caught exception both handlers log.
\<close>

lemma delegating_call:
  assumes "inner \<noteq> outer"
  shows "timeit self outer
       (logged msg2 (\<lambda>w. returning c (timeit self inner (logged msg1 (on_backend f)) w))) w =
     (let r = fst (f (backend w)); b' = snd (f (backend w));
          li = (inner, STORAGE_TYPE self); lo = (outer, STORAGE_TYPE self);
          d = max (perf_counter self b' - perf_counter self (backend w)) 0 in
      (map_sum id c r,
       w\<lparr>storage_request_total_counter :=
               (storage_request_total_counter w)
                 (lo := storage_request_total_counter w lo + 1,
                  li := storage_request_total_counter w li + 1),
             storage_request_failed_counter :=
               (if caught r
                then (storage_request_failed_counter w)
                       (li := storage_request_failed_counter w li + 1,
                        lo := storage_request_failed_counter w lo + 1)
                else storage_request_failed_counter w),
             storage_request_latency :=
               (storage_request_latency w)
                 (li := storage_request_latency w li @ [d],
                  lo := storage_request_latency w lo @ [d]),
             logger := (if caught r then logger w @ [msg1, msg2] else logger w),
             backend := b'\<rparr>))"
  using assms
  by (simp add: timeit_eq [of self outer] logged_eq [of msg2] instrumented_call returning_eq
      Let_def metric_defs)

section \<open>The facade methods, state by state\<close>

lemma save_eq:
  "save self filename data w =
     (let r = fst (runner_save (storage_runner self) filename data (backend w));
          b' = snd (runner_save (storage_runner self) filename data (backend w)) in
      (r, w\<lparr>logger := (if caught r then logger w @ [''Failed to save file '' @ filename]
                        else logger w),
             backend := b'\<rparr>))"
  unfolding save_def logged_eq on_backend_eq
  by (simp add: Let_def metric_defs)

lemma load_unfold:
  "load self filename True w =
     timeit self ''load''
       (logged (''Failed to load file '' @ filename)
          (\<lambda>w. returning PyGenerator
                 (timeit self ''load_stream''
                    (logged (''Failed to load_stream file '' @ filename)
                       (on_backend (runner_load_stream (storage_runner self) filename))) w))) w"
  "load self filename False w =
     timeit self ''load''
       (logged (''Failed to load file '' @ filename)
          (\<lambda>w. returning PyBytes
                 (timeit self ''load_once''
                    (logged (''Failed to load_once file '' @ filename)
                       (on_backend (runner_load_once (storage_runner self) filename))) w))) w"
  by (simp_all only: load_def load_once_def load_stream_def if_True if_False)

lemma names_differ: "''load_stream'' \<noteq> ''load''" "''load_once'' \<noteq> ''load''"
  by simp_all

lemmas load_eq = load_unfold [unfolded delegating_call [OF names_differ(1)] delegating_call [OF names_differ(2)]]

lemmas facade_eq =
  save_eq load_eq
  load_once_def [unfolded instrumented_call] load_stream_def [unfolded instrumented_call]
  download_def [unfolded instrumented_call] exists_def [unfolded instrumented_call]
  delete_def [unfolded instrumented_call]

text \<open>
  A call of the facade returns what the adapter's method returned or raises what it raised,
  leaves the outside world as the adapter left it, and logs the messages of the handlers
  that caught an exception.
\<close>

lemma invoke_result:
  "fst (invoke self c w) = fst (backend_call (storage_runner self) c (backend w))"
proof (cases c)
  case (Load filename stream)
  then show ?thesis by (cases stream) (simp_all add: load_eq answering_eq Let_def)
qed (simp_all add: facade_eq returning_eq answering_eq Let_def)

lemma invoke_backend:
  "backend (snd (invoke self c w)) = snd (backend_call (storage_runner self) c (backend w))"
proof (cases c)
  case (Load filename stream)
  then show ?thesis by (cases stream) (simp_all add: load_eq answering_eq Let_def)
qed (simp_all add: facade_eq returning_eq answering_eq Let_def)

lemma invoke_logger:
  "logger (snd (invoke self c w)) =
     logger w @ (if caught (fst (backend_call (storage_runner self) c (backend w)))
                 then messages c else [])"
proof (cases c)
  case (Load filename stream)
  then show ?thesis by (cases stream) (simp_all add: load_eq answering_eq Let_def)
qed (simp_all add: facade_eq returning_eq answering_eq Let_def)

lemma invoke_failed_counter:
  "storage_request_failed_counter (snd (invoke self c w)) (method_name c, STORAGE_TYPE self) =
     storage_request_failed_counter w (method_name c, STORAGE_TYPE self)
       + (if method_name c \<noteq> ''save'' \<and> caught (fst (invoke self c w)) then 1 else 0)"
proof (cases c)
  case (Load filename stream)
  then show ?thesis by (cases stream) (simp_all add: load_eq Let_def)
qed (simp_all add: facade_eq returning_eq Let_def)

lemma invoke_unfailed:
  assumes "\<not> caught (fst (invoke self c w))"
  shows "storage_request_failed_counter (snd (invoke self c w)) = storage_request_failed_counter w"
proof (cases c)
  case (Load filename stream)
  with assms show ?thesis by (cases stream) (simp_all add: load_eq Let_def)
qed (use assms in \<open>simp_all add: facade_eq returning_eq Let_def\<close>)

lemma not_isl_not_caught: "\<not> isl r \<Longrightarrow> \<not> caught r"
  by (cases r) simp_all

lemma invoke_total_counter:
  assumes "method_name c \<noteq> ''save''"
  shows "storage_request_total_counter (snd (invoke self c w)) (method_name c, STORAGE_TYPE self) =
     storage_request_total_counter w (method_name c, STORAGE_TYPE self) + 1"
proof (cases c)
  case (Load filename stream)
  then show ?thesis by (cases stream) (simp_all add: load_eq Let_def)
qed (use assms in \<open>simp_all add: facade_eq returning_eq Let_def\<close>)

lemma invoke_latency:
  assumes "method_name c \<noteq> ''save''"
  shows "storage_request_latency (snd (invoke self c w)) (method_name c, STORAGE_TYPE self) =
     storage_request_latency w (method_name c, STORAGE_TYPE self)
       @ [max (perf_counter self (backend (snd (invoke self c w))) - perf_counter self (backend w)) 0]"
proof (cases c)
  case (Load filename stream)
  then show ?thesis by (cases stream) (simp_all add: load_eq Let_def)
qed (use assms in \<open>simp_all add: facade_eq returning_eq Let_def\<close>)

section \<open>The two modes of load\<close>

text \<open>
  Claim C5. For every key, \<open>load(key, stream=False)\<close> returns exactly what the backend's
  \<open>load_once(key)\<close> returns (the bytes, or the exception it raises), and
  \<open>load(key, stream=True)\<close> returns exactly the generator the backend's
  \<open>load_stream(key)\<close> returns; the outside world is left as that one backend call left it.
\<close>

theorem load_returns_what_the_backend_returns:
  "fst (load self filename False w) =
     map_sum id PyBytes (fst (runner_load_once (storage_runner self) filename (backend w))) \<and>
   fst (load self filename True w) =
     map_sum id PyGenerator (fst (runner_load_stream (storage_runner self) filename (backend w))) \<and>
   backend (snd (load self filename False w)) =
     snd (runner_load_once (storage_runner self) filename (backend w)) \<and>
   backend (snd (load self filename True w)) =
     snd (runner_load_stream (storage_runner self) filename (backend w))"
  by (simp add: load_eq Let_def)

text \<open>
  Claim C9. One call of \<open>load(key, stream)\<close> increments the total counter twice and
  observes two latencies: once under \<open>load\<close> and once under the method it delegates to,
  \<open>load_once\<close> or \<open>load_stream\<close>, which is decorated itself. No other label changes.
\<close>

theorem load_is_counted_and_timed_twice:
  "storage_request_total_counter (snd (load self filename stream w)) l =
     storage_request_total_counter w l
       + (if l = (''load'', STORAGE_TYPE self) then 1 else 0)
       + (if l = (if stream then ''load_stream'' else ''load_once'', STORAGE_TYPE self)
          then 1 else 0) \<and>
   (\<exists>d1 d2. 0 \<le> d1 \<and> 0 \<le> d2 \<and>
      storage_request_latency (snd (load self filename stream w)) l =
        storage_request_latency w l
          @ (if l = (if stream then ''load_stream'' else ''load_once'', STORAGE_TYPE self)
             then [d1] else [])
          @ (if l = (''load'', STORAGE_TYPE self) then [d2] else []))"
proof (cases stream)
  case True
  have "\<exists>d1 d2. 0 \<le> d1 \<and> 0 \<le> d2 \<and>
      storage_request_latency (snd (load self filename True w)) l =
        storage_request_latency w l
          @ (if l = (''load_stream'', STORAGE_TYPE self) then [d1] else [])
          @ (if l = (''load'', STORAGE_TYPE self) then [d2] else [])"
    by (rule exI [of _ "max (perf_counter self (snd (runner_load_stream (storage_runner self) filename (backend w))) - perf_counter self (backend w)) 0"],
        rule exI [of _ "max (perf_counter self (snd (runner_load_stream (storage_runner self) filename (backend w))) - perf_counter self (backend w)) 0"])
       (simp add: load_eq Let_def)
  with True show ?thesis
    by (simp add: load_eq Let_def)
next
  case False
  have "\<exists>d1 d2. 0 \<le> d1 \<and> 0 \<le> d2 \<and>
      storage_request_latency (snd (load self filename False w)) l =
        storage_request_latency w l
          @ (if l = (''load_once'', STORAGE_TYPE self) then [d1] else [])
          @ (if l = (''load'', STORAGE_TYPE self) then [d2] else [])"
    by (rule exI [of _ "max (perf_counter self (snd (runner_load_once (storage_runner self) filename (backend w))) - perf_counter self (backend w)) 0"],
        rule exI [of _ "max (perf_counter self (snd (runner_load_once (storage_runner self) filename (backend w))) - perf_counter self (backend w)) 0"])
       (simp add: load_eq Let_def)
  with False show ?thesis
    by (simp add: load_eq Let_def)
qed

section \<open>Successful calls\<close>

text \<open>
  Claim C7. A call of a facade method that returns (does not raise) leaves the failure
  counter unchanged, under the label of the method and under every other label.
\<close>

theorem success_leaves_the_failure_counter:
  assumes "\<not> isl (fst (invoke self c w))"
  shows "storage_request_failed_counter (snd (invoke self c w)) = storage_request_failed_counter w"
  using assms by (intro invoke_unfailed not_isl_not_caught)

theorem success_leaves_the_failure_counter_witness:
  "\<not> isl (fst (invoke (facade_of memory_runner) (Exists ''k'') fresh)) \<and>
   storage_request_failed_counter (snd (invoke (facade_of memory_runner) (Exists ''k'') fresh)) =
     storage_request_failed_counter fresh"
proof -
  have returns: "\<not> isl (fst (invoke (facade_of memory_runner) (Exists ''k'') fresh))"
    unfolding invoke_result
    by (simp add: answering_eq facade_of_def memory_runner_def memory_exists_def)
  from returns success_leaves_the_failure_counter [OF returns] show ?thesis
    by (rule conjI)
qed

section \<open>Exceptions from the backend\<close>

text \<open>
  Claim C2, as the code has it. For each of the seven facade methods and every input, an
  exception raised by the backend call reaches the caller as the same exception: same
  class, same message, neither wrapped nor swallowed. When the exception derives from
  \<open>Exception\<close>, the handlers on the way have logged it before. For the methods decorated
  with \<open>timeit\<close> (all but \<open>save\<close>) the total counter has been incremented, one
  latency observed, and the failure counter incremented when the exception derives from
  \<open>Exception\<close>.
\<close>

theorem backend_exception_reaches_caller:
  assumes "fst (backend_call (storage_runner self) c (backend w)) = Inl e"
  shows "fst (invoke self c w) = Inl e \<and>
    (derives_Exception e \<longrightarrow> logger (snd (invoke self c w)) = logger w @ messages c) \<and>
    (method_name c \<noteq> ''save'' \<longrightarrow>
       storage_request_total_counter (snd (invoke self c w)) (method_name c, STORAGE_TYPE self) =
         storage_request_total_counter w (method_name c, STORAGE_TYPE self) + 1 \<and>
       storage_request_failed_counter (snd (invoke self c w)) (method_name c, STORAGE_TYPE self) =
         storage_request_failed_counter w (method_name c, STORAGE_TYPE self)
           + (if derives_Exception e then 1 else 0) \<and>
       (\<exists>d. 0 \<le> d \<and>
          storage_request_latency (snd (invoke self c w)) (method_name c, STORAGE_TYPE self) =
            storage_request_latency w (method_name c, STORAGE_TYPE self) @ [d]))"
proof -
  have raised: "fst (invoke self c w) = Inl e"
    using assms by (simp add: invoke_result)
  have "logger (snd (invoke self c w)) = logger w @ messages c" if "derives_Exception e"
    using assms that by (simp add: invoke_logger)
  moreover have "storage_request_failed_counter (snd (invoke self c w))
        (method_name c, STORAGE_TYPE self) =
      storage_request_failed_counter w (method_name c, STORAGE_TYPE self)
        + (if derives_Exception e then 1 else 0)" if "method_name c \<noteq> ''save''"
    using that raised by (simp add: invoke_failed_counter)
  moreover have "\<exists>d. 0 \<le> d \<and>
      storage_request_latency (snd (invoke self c w)) (method_name c, STORAGE_TYPE self) =
        storage_request_latency w (method_name c, STORAGE_TYPE self) @ [d]"
    if "method_name c \<noteq> ''save''"
    using invoke_latency [OF that, of self w] by (intro exI conjI) (auto intro: max.cobounded2)
  ultimately show ?thesis
    using raised invoke_total_counter [of c self w] by blast
qed

theorem backend_exception_reaches_caller_witness:
  "fst (backend_call (raising_runner connection_error) (Delete ''k'') (backend fresh)) =
     Inl connection_error \<and>
   derives_Exception connection_error \<and>
   method_name (Delete ''k'') \<noteq> ''save'' \<and>
   fst (invoke (facade_of (raising_runner connection_error)) (Delete ''k'') fresh) =
     Inl connection_error \<and>
   logger (snd (invoke (facade_of (raising_runner connection_error)) (Delete ''k'') fresh)) =
     [''Failed to delete file k''] \<and>
   storage_request_failed_counter
     (snd (invoke (facade_of (raising_runner connection_error)) (Delete ''k'') fresh))
     (''delete'', ''local'') = 1"
proof -
  have raises: "fst (backend_call (storage_runner (facade_of (raising_runner connection_error)))
      (Delete ''k'') (backend fresh)) = Inl connection_error"
    by (simp add: facade_of_def raising_runner_def answering_eq)
  show ?thesis
    using raises backend_exception_reaches_caller [OF raises]
    by (simp add: facade_of_def connection_error_def fresh_def)
qed

text \<open>
  The claim as stated has every propagated exception logged first. A
  \<open>KeyboardInterrupt\<close> raised inside the backend's \<open>delete\<close> passes the handler
  \<open>except Exception\<close>: it reaches the caller with nothing logged and no failure counted.
\<close>

theorem interrupted_delete_is_not_logged:
  "fst (runner_delete (raising_runner keyboard_interrupt) ''k'' (backend fresh)) =
     Inl keyboard_interrupt \<and>
   fst (delete (facade_of (raising_runner keyboard_interrupt)) ''k'' fresh) =
     Inl keyboard_interrupt \<and>
   logger (snd (delete (facade_of (raising_runner keyboard_interrupt)) ''k'' fresh)) = [] \<and>
   storage_request_failed_counter
     (snd (delete (facade_of (raising_runner keyboard_interrupt)) ''k'' fresh))
     (''delete'', ''local'') = 0"
  by (simp add: facade_eq Let_def facade_of_def raising_runner_def keyboard_interrupt_def
      fresh_def)

section \<open>Log entries\<close>

lemma messages_nonempty: "messages c \<noteq> []"
  by (cases c) simp_all

lemma messages_name_key: "m \<in> set (messages c) \<Longrightarrow> \<exists>words. m = words @ key c"
  by (cases c) auto

text \<open>
  Claim C8, as the code has it. For every facade call, log entries are written if and only
  if the backend call raises an exception that derives from \<open>Exception\<close>: then the log
  grows by exactly the messages of the handlers on the way (one, or two for \<open>load\<close>),
  each ending in the key; otherwise, on success or on an exception outside
  \<open>Exception\<close>, the log is unchanged.
\<close>

theorem log_entries_iff_exception_caught:
  "logger (snd (invoke self c w)) =
     logger w @ (if caught (fst (backend_call (storage_runner self) c (backend w)))
                 then messages c else []) \<and>
   (logger (snd (invoke self c w)) \<noteq> logger w) =
     caught (fst (backend_call (storage_runner self) c (backend w))) \<and>
   messages c \<noteq> [] \<and>
   (\<forall>m \<in> set (messages c). \<exists>words. m = words @ key c)"
  using messages_nonempty [of c] messages_name_key [of _ c]
  by (simp add: invoke_logger)

theorem log_entries_iff_exception_caught_witness:
  "caught (fst (backend_call (raising_runner connection_error) (Exists ''k'') (backend fresh))) \<and>
   logger (snd (invoke (facade_of (raising_runner connection_error)) (Exists ''k'') fresh)) =
     [''Failed to check file exists k''] \<and>
   \<not> caught (fst (backend_call memory_runner (Exists ''k'') (backend fresh))) \<and>
   logger (snd (invoke (facade_of memory_runner) (Exists ''k'') fresh)) = []"
  using log_entries_iff_exception_caught
      [of "facade_of (raising_runner connection_error)" "Exists ''k''" fresh]
    log_entries_iff_exception_caught [of "facade_of memory_runner" "Exists ''k''" fresh]
  by (simp add: facade_of_def raising_runner_def memory_runner_def memory_exists_def
      connection_error_def answering_eq fresh_def)

text \<open>
  The claim as stated has a log entry whenever the backend call raises. The backend's
  \<open>download\<close> raising \<open>KeyboardInterrupt\<close> leaves the log empty.
\<close>

theorem interrupted_download_writes_no_log:
  "fst (runner_download (raising_runner keyboard_interrupt) ''k'' ''/tmp/k'' (backend fresh)) =
     Inl keyboard_interrupt \<and>
   fst (download (facade_of (raising_runner keyboard_interrupt)) ''k'' ''/tmp/k'' fresh) =
     Inl keyboard_interrupt \<and>
   logger (snd (download (facade_of (raising_runner keyboard_interrupt)) ''k'' ''/tmp/k'' fresh)) =
     []"
  by (simp add: facade_eq Let_def facade_of_def raising_runner_def keyboard_interrupt_def
      fresh_def)

section \<open>Metrics of the public operations\<close>

text \<open>
  Claim C1, as the code has it. For the public operations \<open>load\<close>, \<open>download\<close>,
  \<open>exists\<close> and \<open>delete\<close>, one call increments the total counter labelled
  (operation, provider) exactly once and observes exactly one latency under that label,
  whether it returns or raises, and increments the failure counter under that label exactly
  once when it raises an exception that derives from \<open>Exception\<close>, and not otherwise.
\<close>

theorem public_call_counted_and_timed_once:
  assumes "method_name c \<in> {''load'', ''download'', ''exists'', ''delete''}"
  shows "storage_request_total_counter (snd (invoke self c w)) (method_name c, STORAGE_TYPE self) =
      storage_request_total_counter w (method_name c, STORAGE_TYPE self) + 1 \<and>
    (\<exists>d. storage_request_latency (snd (invoke self c w)) (method_name c, STORAGE_TYPE self) =
        storage_request_latency w (method_name c, STORAGE_TYPE self) @ [d]) \<and>
    storage_request_failed_counter (snd (invoke self c w)) (method_name c, STORAGE_TYPE self) =
      storage_request_failed_counter w (method_name c, STORAGE_TYPE self)
        + (if caught (fst (invoke self c w)) then 1 else 0)"
proof -
  have decorated: "method_name c \<noteq> ''save''"
    using assms by auto
  show ?thesis
    using invoke_total_counter [OF decorated, of self w] invoke_latency [OF decorated, of self w]
      invoke_failed_counter [of self c w] decorated
    by simp
qed

theorem public_call_counted_and_timed_once_witness:
  "method_name (Exists ''k'') \<in> {''load'', ''download'', ''exists'', ''delete''} \<and>
   storage_request_total_counter
     (snd (invoke (facade_of (raising_runner connection_error)) (Exists ''k'') fresh))
     (''exists'', ''local'') = 1 \<and>
   storage_request_latency
     (snd (invoke (facade_of (raising_runner connection_error)) (Exists ''k'') fresh))
     (''exists'', ''local'') = [1] \<and>
   storage_request_failed_counter
     (snd (invoke (facade_of (raising_runner connection_error)) (Exists ''k'') fresh))
     (''exists'', ''local'') = 1"
proof -
  have public: "method_name (Exists ''k'') \<in> {''load'', ''download'', ''exists'', ''delete''}"
    by simp
  have observed: "storage_request_latency
     (snd (invoke (facade_of (raising_runner connection_error)) (Exists ''k'') fresh))
     (''exists'', ''local'') = [1]"
    by (simp add: facade_eq returning_eq Let_def facade_of_def raising_runner_def fresh_def
        tick_def)
  have raised: "caught (fst (invoke (facade_of (raising_runner connection_error)) (Exists ''k'') fresh))"
    by (simp add: facade_eq returning_eq Let_def facade_of_def raising_runner_def
        connection_error_def)
  show ?thesis
    using public observed raised
      public_call_counted_and_timed_once
        [OF public, of "facade_of (raising_runner connection_error)" fresh]
    by (simp add: facade_of_def fresh_def)
qed

text \<open>
  The claim as stated covers \<open>save\<close> and every raise. \<open>save\<close> is the one method
  without the decorator: a successful \<open>save\<close> leaves the total counter and the
  histogram of its label empty. And \<open>exists\<close> cut short by \<open>KeyboardInterrupt\<close>
  raises without a failure being counted.
\<close>

theorem save_is_not_counted_and_interrupt_is_no_failure:
  "fst (save (facade_of memory_runner) ''k'' [1, 2, 3] fresh) = Inr () \<and>
   storage_request_total_counter (snd (save (facade_of memory_runner) ''k'' [1, 2, 3] fresh))
     (''save'', ''local'') = 0 \<and>
   storage_request_latency (snd (save (facade_of memory_runner) ''k'' [1, 2, 3] fresh))
     (''save'', ''local'') = [] \<and>
   fst (exists (facade_of (raising_runner keyboard_interrupt)) ''k'' fresh) =
     Inl keyboard_interrupt \<and>
   storage_request_failed_counter
     (snd (exists (facade_of (raising_runner keyboard_interrupt)) ''k'' fresh))
     (''exists'', ''local'') = 0"
  by (simp add: facade_eq Let_def facade_of_def raising_runner_def memory_runner_def
      memory_save_def keyboard_interrupt_def fresh_def)

section \<open>The decorator\<close>

text \<open>
  Claim C4, as the code has it. \<open>timeit\<close> runs, in this order: the increment of the total
  counter, the wrapped function, the increment of the failure counter when the function
  raised an exception that derives from \<open>Exception\<close> (inside the \<open>with\<close> block, before
  the exception is raised again), and on leaving the block exactly one observation of the
  duration \<open>d \<ge> 0\<close> under (operation, provider), whether the function returned or
  raised. So every decorated facade call adds exactly one non-negative observation under its
  label. An exception outside \<open>Exception\<close> is never caught: it passes with the latency
  observed and no failure counted.
\<close>

theorem timeit_observes_once:
  "(let l = (name, STORAGE_TYPE self);
        r = fst (func (inc_total l w));
        w1 = snd (func (inc_total l w));
        d = max (perf_counter self (backend w1) - perf_counter self (backend w)) 0
    in 0 \<le> d \<and>
       timeit_body l func w = (r, if caught r then inc_failed l w1 else w1) \<and>
       timeit self name func w = (r, observe l d (snd (timeit_body l func w)))) \<and>
   (method_name c \<noteq> ''save'' \<longrightarrow>
      (\<exists>d. 0 \<le> d \<and>
         storage_request_latency (snd (invoke self c w)) (method_name c, STORAGE_TYPE self) =
           storage_request_latency w (method_name c, STORAGE_TYPE self) @ [d]) \<and>
      storage_request_failed_counter (snd (invoke self c w)) (method_name c, STORAGE_TYPE self) =
        storage_request_failed_counter w (method_name c, STORAGE_TYPE self)
          + (if caught (fst (invoke self c w)) then 1 else 0))"
proof -
  have wrapper: "let l = (name, STORAGE_TYPE self);
        r = fst (func (inc_total l w));
        w1 = snd (func (inc_total l w));
        d = max (perf_counter self (backend w1) - perf_counter self (backend w)) 0
    in 0 \<le> d \<and>
       timeit_body l func w = (r, if caught r then inc_failed l w1 else w1) \<and>
       timeit self name func w = (r, observe l d (snd (timeit_body l func w)))"
    by (simp add: Let_def timeit_eq timeit_body_eq metric_defs split: prod.splits)
  have "\<exists>d. 0 \<le> d \<and>
      storage_request_latency (snd (invoke self c w)) (method_name c, STORAGE_TYPE self) =
        storage_request_latency w (method_name c, STORAGE_TYPE self) @ [d]"
    if "method_name c \<noteq> ''save''"
    using invoke_latency [OF that, of self w] by (intro exI conjI) (auto intro: max.cobounded2)
  with wrapper show ?thesis
    by (simp add: invoke_failed_counter)
qed

theorem timeit_observes_once_witness:
  "method_name (Load_once ''k'') \<noteq> ''save'' \<and>
   fst (invoke (facade_of (raising_runner connection_error)) (Load_once ''k'') fresh) =
     Inl connection_error \<and>
   storage_request_latency
     (snd (invoke (facade_of (raising_runner connection_error)) (Load_once ''k'') fresh))
     (''load_once'', ''local'') = [1] \<and>
   storage_request_failed_counter
     (snd (invoke (facade_of (raising_runner connection_error)) (Load_once ''k'') fresh))
     (''load_once'', ''local'') = 1"
proof -
  have raised: "fst (invoke (facade_of (raising_runner connection_error)) (Load_once ''k'') fresh) =
      Inl connection_error"
    by (simp add: facade_eq returning_eq Let_def facade_of_def raising_runner_def)
  have observed: "storage_request_latency
     (snd (invoke (facade_of (raising_runner connection_error)) (Load_once ''k'') fresh))
     (''load_once'', ''local'') = [1]"
    by (simp add: facade_eq returning_eq Let_def facade_of_def raising_runner_def fresh_def
        tick_def)
  show ?thesis
    using raised observed
      timeit_observes_once
        [where c = "Load_once ''k''" and self = "facade_of (raising_runner connection_error)"
           and w = fresh and name = "''load_once''"
           and func = "on_backend (runner_load_once (raising_runner connection_error) ''k'')"]
    by (simp add: facade_of_def fresh_def connection_error_def)
qed

text \<open>
  The claim as stated has the failure counter incremented whenever the wrapped call raises.
  \<open>load_once\<close> cut short by \<open>KeyboardInterrupt\<close> raises with its latency observed and
  the failure counter still at zero.
\<close>

theorem interrupted_load_once_counts_no_failure:
  "fst (load_once (facade_of (raising_runner keyboard_interrupt)) ''k'' fresh) =
     Inl keyboard_interrupt \<and>
   storage_request_latency
     (snd (load_once (facade_of (raising_runner keyboard_interrupt)) ''k'' fresh))
     (''load_once'', ''local'') = [1] \<and>
   storage_request_failed_counter
     (snd (load_once (facade_of (raising_runner keyboard_interrupt)) ''k'' fresh))
     (''load_once'', ''local'') = 0"
  by (simp add: facade_eq Let_def facade_of_def raising_runner_def keyboard_interrupt_def
      fresh_def tick_def)

section \<open>Streaming\<close>

text \<open>
  Iterating a generator works on the outside world only: whatever it yields or raises, the
  metrics and the log stay as they are.
\<close>

lemma iterate_frame:
  "storage_request_failed_counter (snd (iterate self n g w)) = storage_request_failed_counter w \<and>
   storage_request_total_counter (snd (iterate self n g w)) = storage_request_total_counter w \<and>
   storage_request_latency (snd (iterate self n g w)) = storage_request_latency w \<and>
   logger (snd (iterate self n g w)) = logger w"
proof (induction n arbitrary: g w)
  case 0
  show ?case by simp
next
  case (Suc n)
  obtain r where step: "on_backend (runner_next (storage_runner self) g) w =
      (r, w\<lparr>backend := snd (runner_next (storage_runner self) g (backend w))\<rparr>)"
    by (simp add: on_backend_eq)
  show ?case
  proof (cases r)
    case (Inl e)
    with step show ?thesis by simp
  next
    case (Inr y)
    show ?thesis
    proof (cases y)
      case None
      with Inr step show ?thesis by simp
    next
      case (Some cg)
      obtain chunk g' where cg: "cg = (chunk, g')"
        by (cases cg)
      from Suc.IH [of g' "w\<lparr>backend := snd (runner_next (storage_runner self) g (backend w))\<rparr>"]
      show ?thesis
        using Inr Some cg step
        by (auto split: prod.splits option.splits sum.splits)
    qed
  qed
qed

text \<open>
  Claim C10. \<open>load_stream(key)\<close> returns the backend's generator as the backend
  returned it, with nothing consumed: the outside world is as the backend call left it, no
  failure is counted and nothing is logged, and that stays so however far the caller
  iterates the generator, also when the iteration raises. Only an exception raised by the
  call that obtains the generator (one deriving from \<open>Exception\<close>) is counted as a
  failure and logged.
\<close>

theorem load_stream_hands_over_the_generator:
  "(runner_load_stream (storage_runner self) filename (backend w) = (Inr g, b') \<longrightarrow>
      fst (load_stream self filename w) = Inr g \<and>
      backend (snd (load_stream self filename w)) = b' \<and>
      storage_request_failed_counter (snd (load_stream self filename w)) =
        storage_request_failed_counter w \<and>
      logger (snd (load_stream self filename w)) = logger w \<and>
      storage_request_failed_counter
        (snd (iterate self n g (snd (load_stream self filename w)))) =
        storage_request_failed_counter w \<and>
      logger (snd (iterate self n g (snd (load_stream self filename w)))) = logger w) \<and>
   (runner_load_stream (storage_runner self) filename (backend w) = (Inl e, b') \<and>
    derives_Exception e \<longrightarrow>
      fst (load_stream self filename w) = Inl e \<and>
      storage_request_failed_counter (snd (load_stream self filename w))
          (''load_stream'', STORAGE_TYPE self) =
        storage_request_failed_counter w (''load_stream'', STORAGE_TYPE self) + 1 \<and>
      logger (snd (load_stream self filename w)) =
        logger w @ [''Failed to load_stream file '' @ filename])"
  by (simp add: iterate_frame facade_eq Let_def)

theorem load_stream_hands_over_the_generator_witness:
  "runner_load_stream (storage_runner (facade_of memory_runner)) ''k'' (backend fresh) =
     (Inr (Unstarted ''k''), backend fresh) \<and>
   fst (load_stream (facade_of memory_runner) ''k'' fresh) = Inr (Unstarted ''k'') \<and>
   fst (iterate (facade_of memory_runner) 1 (Unstarted ''k'')
          (snd (load_stream (facade_of memory_runner) ''k'' fresh))) =
     Some (Inl (file_not_found ''k'')) \<and>
   storage_request_failed_counter
     (snd (iterate (facade_of memory_runner) 1 (Unstarted ''k'')
             (snd (load_stream (facade_of memory_runner) ''k'' fresh)))) =
     storage_request_failed_counter fresh \<and>
   logger
     (snd (iterate (facade_of memory_runner) 1 (Unstarted ''k'')
             (snd (load_stream (facade_of memory_runner) ''k'' fresh)))) = [] \<and>
   runner_load_stream (storage_runner (facade_of (raising_runner connection_error))) ''k''
       (backend fresh) =
     (Inl connection_error, tick (backend fresh)) \<and>
   derives_Exception connection_error \<and>
   storage_request_failed_counter
     (snd (load_stream (facade_of (raising_runner connection_error)) ''k'' fresh))
     (''load_stream'', ''local'') = 1 \<and>
   logger (snd (load_stream (facade_of (raising_runner connection_error)) ''k'' fresh)) =
     [''Failed to load_stream file k'']"
proof -
  have obtained: "runner_load_stream (storage_runner (facade_of memory_runner)) ''k''
      (backend fresh) = (Inr (Unstarted ''k''), backend fresh)"
    by (simp add: facade_of_def memory_runner_def memory_load_stream_def)
  have refused: "runner_load_stream (storage_runner (facade_of (raising_runner connection_error)))
      ''k'' (backend fresh) = (Inl connection_error, tick (backend fresh))"
    by (simp add: facade_of_def raising_runner_def)
  have is_exception: "derives_Exception connection_error"
    by (simp add: connection_error_def)
  have iteration_raises: "fst (iterate (facade_of memory_runner) 1 (Unstarted ''k'')
          (snd (load_stream (facade_of memory_runner) ''k'' fresh))) =
     Some (Inl (file_not_found ''k''))"
    by (simp add: facade_eq Let_def on_backend_eq facade_of_def memory_runner_def
        memory_load_stream_def fresh_def)
  show ?thesis
    using obtained refused is_exception iteration_raises
      load_stream_hands_over_the_generator
        [where self = "facade_of memory_runner" and filename = "''k''" and w = fresh
           and g = "Unstarted ''k''" and b' = "backend fresh" and n = 1]
      load_stream_hands_over_the_generator
        [where self = "facade_of (raising_runner connection_error)" and filename = "''k''"
           and w = fresh and e = connection_error and b' = "tick (backend fresh)"]
    by (simp add: facade_of_def fresh_def)
qed

section \<open>Round trip\<close>

lemma memory_round_trip:
  "runner_save memory_runner k data b = (Inr (), b') \<Longrightarrow>
   fst (runner_load_once memory_runner k b') = Inr data"
  by (auto simp: memory_runner_def memory_save_def memory_load_once_def tick_def)

text \<open>
  Claim C6. Over a backend that keeps the contract (after its \<open>save\<close> of bytes under a
  key returned, its \<open>load_once\<close> of that key returns these bytes), a successful
  \<open>save(k, b)\<close> of the facade followed at once by \<open>load_once(k)\<close> returns \<open>b\<close>: the
  facade passes key and bytes on unchanged, returns what the backend returns and touches
  the outside world through the backend only.
\<close>

theorem save_then_load_once:
  assumes contract: "\<And>b b'. runner_save (storage_runner self) k data b = (Inr (), b') \<Longrightarrow>
      fst (runner_load_once (storage_runner self) k b') = Inr data"
    and saved: "save self k data w = (Inr (), w')"
  shows "fst (load_once self k w') = Inr data"
proof -
  from saved have "runner_save (storage_runner self) k data (backend w) = (Inr (), backend w')"
    by (auto simp: save_eq Let_def prod_eq_iff)
  from contract [OF this] show ?thesis
    by (simp add: facade_eq Let_def)
qed

theorem save_then_load_once_witness:
  "save (facade_of memory_runner) ''k'' [1, 2, 3] fresh =
     (Inr (), snd (save (facade_of memory_runner) ''k'' [1, 2, 3] fresh)) \<and>
   fst (load_once (facade_of memory_runner) ''k''
          (snd (save (facade_of memory_runner) ''k'' [1, 2, 3] fresh))) = Inr [1, 2, 3]"
proof -
  have saved: "save (facade_of memory_runner) ''k'' [1, 2, 3] fresh =
      (Inr (), snd (save (facade_of memory_runner) ''k'' [1, 2, 3] fresh))"
    by (simp add: save_eq Let_def facade_of_def memory_runner_def memory_save_def)
  have contract: "runner_save (storage_runner (facade_of memory_runner)) ''k'' [1, 2, 3] b =
      (Inr (), b') \<Longrightarrow>
      fst (runner_load_once (storage_runner (facade_of memory_runner)) ''k'' b') = Inr [1, 2, 3]"
    for b b'
    using memory_round_trip [of "''k''" "[1, 2, 3]" b b'] by (simp add: facade_of_def)
  from saved save_then_load_once [OF contract saved] show ?thesis
    by (rule conjI)
qed

end
